theory Spec2Isabelle
  imports Main "HOL-Library.Multiset"
begin

section \<open>OrderedQueueWithRetry: data model\<close>

text \<open>
  The embedding follows \<^verbatim>\<open>src/queues/ordered-queue-with-retry.js\<close>. The BullMQ queue
  is an external collaborator: its operations are parameters of the model (\<open>add\<close>,
  \<open>getJobs\<close>, ...), acting on an abstract backend state \<open>'q\<close>; each of them either
  returns or throws. JavaScript numbers that the class produces (order counter, retry
  counters, delays, timestamps) are non-negative integers far below \<open>2^53\<close> and are
  modelled as \<open>nat\<close>; a property that may be \<^verbatim>\<open>undefined\<close> is an \<open>option\<close>.
\<close>

datatype error =
    NotInitializedError          \<comment> \<open>\<^verbatim>\<open>Error('Queue not initialized. Call initialize() first.')\<close>\<close>
  | NoProcessorError string      \<comment> \<open>\<^verbatim>\<open>Error('No processor registered for job type: ...')\<close>\<close>
  | HandlerError string          \<comment> \<open>whatever a user processor throws\<close>
  | BackendError string          \<comment> \<open>whatever a BullMQ call throws\<close>
  | TypeError                    \<comment> \<open>property access on \<^verbatim>\<open>null\<close> (\<^verbatim>\<open>this.queue\<close> before initialize)\<close>

datatype jobstatus = Waiting | Delayed | Active | Completed | Failed

text \<open>
  The \<^verbatim>\<open>data\<close> object of a job: the own properties of the user payload (spread first),
  then the underscore fields written by the class.
\<close>

record 'a jobdata =
  d_spread :: 'a
  d_order :: "nat option"
  d_originalData :: 'a
  d_retryCount :: "nat option"
  d_maxRetries :: "nat option"
  d_previousJobId :: "string option"

text \<open>The options object handed to \<^verbatim>\<open>queue.add\<close>.\<close>

record addopts =
  opt_delay :: "nat option"
  opt_priority :: "nat option"
  opt_attempts :: "nat option"
  opt_backoff :: "bool option"
  opt_jobId :: "string option"

text \<open>
  A BullMQ job object. \<^verbatim>\<open>queue.add(name, data, opts)\<close> builds the job from its own
  arguments and only the identifier comes from the backend, so the \<open>add\<close> parameter of the
  model returns the identifier (and the next backend state) or an error.
\<close>

record 'a job =
  job_id :: string
  job_name :: string
  job_data :: "'a jobdata"
  job_opts :: addopts

definition job_delay :: "'a job \<Rightarrow> nat option" where
  "job_delay j = opt_delay (job_opts j)"

type_synonym ('a, 'q) add_fn =
  "'q \<Rightarrow> string \<Rightarrow> 'a jobdata \<Rightarrow> addopts \<Rightarrow> error + (string \<times> 'q)"

type_synonym ('a, 'q) getJobs_fn =
  "'q \<Rightarrow> jobstatus \<Rightarrow> int \<Rightarrow> int \<Rightarrow> error + 'a job list"

type_synonym ('a, 'r) processor = "'a \<Rightarrow> 'a job \<Rightarrow> error + 'r"

record counts =
  c_waiting :: nat
  c_active :: nat
  c_completed :: nat
  c_failed :: nat
  c_delayed :: nat

text \<open>The fields of the class instance; \<open>queue = None\<close> is \<^verbatim>\<open>this.queue === null\<close>.\<close>

record ('a, 'r, 'q) sched =
  queueName :: string
  queue :: "'q option"
  worker :: bool
  scheduler :: bool
  isInitialized :: bool
  processingOrder :: "string \<rightharpoonup> nat option"
  currentOrder :: nat
  maxRetries :: nat
  retryDelay :: nat
  processors :: "string \<rightharpoonup> ('a, 'r) processor"

text \<open>
  \<^verbatim>\<open>v || d\<close> on a numeric property: \<^verbatim>\<open>undefined\<close> and \<open>0\<close> are both falsy, so
  both give the default.
\<close>

definition jsor :: "nat option \<Rightarrow> nat \<Rightarrow> nat" where
  "jsor v d = (case v of None \<Rightarrow> d | Some n \<Rightarrow> if n = 0 then d else n)"

text \<open>Decimal rendering of a number inside a template string.\<close>

definition digit_char :: "nat \<Rightarrow> char" where
  "digit_char n = ''0123456789'' ! n"

fun digits_of :: "nat \<Rightarrow> string" where
  "digits_of n =
     (if n < 10 then [digit_char n] else digits_of (n div 10) @ [digit_char (n mod 10)])"

declare digits_of.simps [simp del]

section \<open>Construction and configuration\<close>

definition constructor :: "string \<Rightarrow> ('a, 'r, 'q) sched" where
  "constructor name =
     \<lparr> queueName = name, queue = None, worker = False, scheduler = False,
       isInitialized = False, processingOrder = Map.empty, currentOrder = 0,
       maxRetries = 3, retryDelay = 60000, processors = Map.empty \<rparr>"

text \<open>
  \<^verbatim>\<open>initialize\<close>: \<open>newQueue\<close> and \<open>newScheduler\<close> are the two BullMQ constructors; an
  exception of either is rethrown, with the assignments made so far kept.
\<close>

definition initialize ::
  "(string \<Rightarrow> error + 'q) \<Rightarrow> (string \<Rightarrow> error + unit) \<Rightarrow> ('a, 'r, 'q) sched
     \<Rightarrow> (error + unit) \<times> ('a, 'r, 'q) sched" where
  "initialize newQueue newScheduler s =
     (case newQueue (queueName s) of
        Inl e \<Rightarrow> (Inl e, s)
      | Inr q \<Rightarrow>
          (case newScheduler (queueName s) of
             Inl e \<Rightarrow> (Inl e, s\<lparr>queue := Some q\<rparr>)
           | Inr u \<Rightarrow> (Inr (), s\<lparr>queue := Some q, scheduler := True, isInitialized := True\<rparr>)))"

definition registerProcessor ::
  "('a, 'r, 'q) sched \<Rightarrow> string \<Rightarrow> ('a, 'r) processor \<Rightarrow> ('a, 'r, 'q) sched" where
  "registerProcessor s jobName processor = s\<lparr>processors := (processors s)(jobName \<mapsto> processor)\<rparr>"

definition setRetryConfig :: "('a, 'r, 'q) sched \<Rightarrow> nat \<Rightarrow> nat \<Rightarrow> ('a, 'r, 'q) sched" where
  "setRetryConfig s maxRetries' retryDelay' = s\<lparr>maxRetries := maxRetries', retryDelay := retryDelay'\<rparr>"

section \<open>Submission\<close>

text \<open>The two object literals of \<^verbatim>\<open>addJob\<close>.\<close>

definition newJobData :: "('a, 'r, 'q) sched \<Rightarrow> nat \<Rightarrow> 'a \<Rightarrow> 'a jobdata" where
  "newJobData s order' data =
     \<lparr> d_spread = data, d_order = Some order', d_originalData = data,
       d_retryCount = Some 0, d_maxRetries = Some (maxRetries s), d_previousJobId = None \<rparr>"

definition newJobOpts :: "addopts \<Rightarrow> addopts" where
  "newJobOpts options = options\<lparr>opt_attempts := Some 1, opt_backoff := Some False\<rparr>"

text \<open>
  \<^verbatim>\<open>addJob\<close>: the counter is read and incremented first, then the backend is called;
  a backend exception is logged and rethrown.
\<close>

definition addJob ::
  "('a, 'q) add_fn \<Rightarrow> ('a, 'r, 'q) sched \<Rightarrow> string \<Rightarrow> 'a \<Rightarrow> addopts
     \<Rightarrow> (error + 'a job) \<times> ('a, 'r, 'q) sched" where
  "addJob add s jobName data options =
     (if \<not> isInitialized s then (Inl NotInitializedError, s)
      else
        let order' = currentOrder s;
            s1 = s\<lparr>currentOrder := order' + 1\<rparr>
        in (case queue s1 of
              None \<Rightarrow> (Inl TypeError, s1)
            | Some q \<Rightarrow>
                (case add q jobName (newJobData s1 order' data) (newJobOpts options) of
                   Inl e \<Rightarrow> (Inl e, s1)
                 | Inr (jid, q') \<Rightarrow>
                     (Inr \<lparr> job_id = jid, job_name = jobName,
                            job_data = newJobData s1 order' data,
                            job_opts = newJobOpts options \<rparr>,
                      s1\<lparr>queue := Some q',
                         processingOrder := (processingOrder s1)(jid \<mapsto> Some order')\<rparr>))))"

text \<open>A sequence of \<^verbatim>\<open>addJob\<close> calls by one caller, who stops at the first exception.\<close>

fun addJobs ::
  "('a, 'q) add_fn \<Rightarrow> ('a, 'r, 'q) sched \<Rightarrow> (string \<times> 'a \<times> addopts) list
     \<Rightarrow> (error + 'a job list) \<times> ('a, 'r, 'q) sched" where
  "addJobs add s [] = (Inr [], s)"
| "addJobs add s ((jobName, data, options) # rest) =
     (case addJob add s jobName data options of
        (Inl e, s1) \<Rightarrow> (Inl e, s1)
      | (Inr j, s1) \<Rightarrow>
          (case addJobs add s1 rest of
             (Inl e, s2) \<Rightarrow> (Inl e, s2)
           | (Inr js, s2) \<Rightarrow> (Inr (j # js), s2)))"

section \<open>Retry coordinator and worker callback\<close>

text \<open>The two object literals of \<^verbatim>\<open>handleJobFailure\<close>; \<open>now\<close> is \<^verbatim>\<open>Date.now()\<close>.\<close>

definition retryData :: "('a, 'r, 'q) sched \<Rightarrow> 'a job \<Rightarrow> 'a jobdata" where
  "retryData s j =
     \<lparr> d_spread = d_originalData (job_data j),
       d_order = d_order (job_data j),
       d_originalData = d_originalData (job_data j),
       d_retryCount = Some (jsor (d_retryCount (job_data j)) 0 + 1),
       d_maxRetries = Some (jsor (d_maxRetries (job_data j)) (maxRetries s)),
       d_previousJobId = Some (job_id j) \<rparr>"

definition retryOpts :: "('a, 'r, 'q) sched \<Rightarrow> nat \<Rightarrow> 'a job \<Rightarrow> addopts" where
  "retryOpts s now j =
     \<lparr> opt_delay = Some (retryDelay s), opt_priority = None, opt_attempts = Some 1,
       opt_backoff = Some False,
       opt_jobId = Some (''retry_'' @ job_id j @ ''_'' @ digits_of now) \<rparr>"

text \<open>
  \<^verbatim>\<open>handleJobFailure\<close> returns nothing; the second component of the model's result is
  the local \<^verbatim>\<open>retryJob\<close>, \<open>None\<close> when no retry job came into being. An exception
  inside the \<^verbatim>\<open>try\<close> block is logged and swallowed.
\<close>

definition handleJobFailure ::
  "('a, 'q) add_fn \<Rightarrow> nat \<Rightarrow> ('a, 'r, 'q) sched \<Rightarrow> 'a job
     \<Rightarrow> ('a, 'r, 'q) sched \<times> 'a job option" where
  "handleJobFailure add now s j =
     (let retryCount = jsor (d_retryCount (job_data j)) 0;
          maxRetries' = jsor (d_maxRetries (job_data j)) (maxRetries s)
      in if retryCount \<ge> maxRetries' then (s, None)
         else
           (case queue s of
              None \<Rightarrow> (s, None)
            | Some q \<Rightarrow>
                (case add q (job_name j) (retryData s j) (retryOpts s now j) of
                   Inl e \<Rightarrow> (s, None)
                 | Inr (rid, q') \<Rightarrow>
                     (s\<lparr>queue := Some q',
                        processingOrder := (processingOrder s)(rid \<mapsto> d_order (job_data j))\<rparr>,
                      Some \<lparr> job_id = rid, job_name = job_name j,
                             job_data = retryData s j,
                             job_opts = retryOpts s now j \<rparr>))))"

text \<open>
  The processor function handed to \<^verbatim>\<open>new Worker\<close> in \<^verbatim>\<open>start\<close>: its outcome (the value
  returned to BullMQ or the error rethrown), the scheduler afterwards, and the retry job
  created on the way, if any.
\<close>

definition worker_callback ::
  "('a, 'q) add_fn \<Rightarrow> nat \<Rightarrow> ('a, 'r, 'q) sched \<Rightarrow> 'a job
     \<Rightarrow> (error + 'r) \<times> ('a, 'r, 'q) sched \<times> 'a job option" where
  "worker_callback add now s j =
     (case processors s (job_name j) of
        None \<Rightarrow> (Inl (NoProcessorError (job_name j)), handleJobFailure add now s j)
      | Some processor \<Rightarrow>
          (case processor (d_originalData (job_data j)) j of
             Inr result \<Rightarrow> (Inr result, s, None)
           | Inl e \<Rightarrow> (Inl e, handleJobFailure add now s j)))"

text \<open>
  \<^verbatim>\<open>start\<close>: the guard, then the worker is created; the BullMQ \<^verbatim>\<open>Worker\<close> constructor
  and the registration of the event listeners are taken to succeed.
\<close>

definition start :: "('a, 'r, 'q) sched \<Rightarrow> (error + unit) \<times> ('a, 'r, 'q) sched" where
  "start s = (if \<not> isInitialized s then (Inl NotInitializedError, s)
              else (Inr (), s\<lparr>worker := True\<rparr>))"

text \<open>
  A lineage whose every delivered attempt fails: the first attempt fails at the first
  time stamp, the retry it produced fails at the next one, and so on. The result is the
  list of resubmitted attempts, oldest first.
\<close>

fun failRepeatedly ::
  "('a, 'q) add_fn \<Rightarrow> nat list \<Rightarrow> ('a, 'r, 'q) sched \<Rightarrow> 'a job
     \<Rightarrow> ('a, 'r, 'q) sched \<times> 'a job list" where
  "failRepeatedly add [] s j = (s, [])"
| "failRepeatedly add (now # nows) s j =
     (case handleJobFailure add now s j of
        (s1, None) \<Rightarrow> (s1, [])
      | (s1, Some rj) \<Rightarrow>
          (case failRepeatedly add nows s1 rj of (s2, rjs) \<Rightarrow> (s2, rj # rjs)))"

section \<open>Stats projector and cleanup\<close>

record entry =
  e_id :: string
  e_name :: string
  e_order :: nat
  e_retryCount :: nat

record delayed_entry = entry +
  e_delay :: "nat option"

text \<open>
  \<^verbatim>\<open>Array.prototype.sort(comparefn)\<close>: the sort is stable, and with a consistent
  comparator its result is the one ordered list with equal elements in their original
  order, whatever the engine's algorithm. The model inserts from the right.
\<close>

fun js_insert :: "('e \<Rightarrow> 'e \<Rightarrow> int) \<Rightarrow> 'e \<Rightarrow> 'e list \<Rightarrow> 'e list" where
  "js_insert cmp x [] = [x]"
| "js_insert cmp x (y # ys) = (if cmp x y \<le> 0 then x # y # ys else y # js_insert cmp x ys)"

definition js_sort :: "('e \<Rightarrow> 'e \<Rightarrow> int) \<Rightarrow> 'e list \<Rightarrow> 'e list" where
  "js_sort cmp xs = foldr (js_insert cmp) xs []"

text \<open>The comparator \<^verbatim>\<open>(a, b) => a.order - b.order\<close>.\<close>

definition byOrder :: "'m entry_scheme \<Rightarrow> 'm entry_scheme \<Rightarrow> int" where
  "byOrder a b = int (e_order a) - int (e_order b)"

definition waitingEntry :: "'a job \<Rightarrow> entry" where
  "waitingEntry j =
     \<lparr> e_id = job_id j, e_name = job_name j,
       e_order = jsor (d_order (job_data j)) 0,
       e_retryCount = jsor (d_retryCount (job_data j)) 0 \<rparr>"

definition delayedEntry :: "'a job \<Rightarrow> delayed_entry" where
  "delayedEntry j =
     \<lparr> e_id = job_id j, e_name = job_name j,
       e_order = jsor (d_order (job_data j)) 0,
       e_retryCount = jsor (d_retryCount (job_data j)) 0,
       e_delay = job_delay j \<rparr>"

record orderedCounts =
  r_jobCounts :: counts
  orderedWaiting :: "entry list"
  orderedDelayed :: "delayed_entry list"
  totalOrder :: nat
  r_maxRetries :: nat
  r_retryDelay :: nat

definition getOrderedJobCounts ::
  "('q \<Rightarrow> error + counts) \<Rightarrow> ('a, 'q) getJobs_fn \<Rightarrow> ('a, 'r, 'q) sched
     \<Rightarrow> error + orderedCounts" where
  "getOrderedJobCounts getJobCounts getJobs s =
     (if \<not> isInitialized s then Inl NotInitializedError
      else
        (case queue s of
           None \<Rightarrow> Inl TypeError
         | Some q \<Rightarrow>
             (case getJobCounts q of
                Inl e \<Rightarrow> Inl e
              | Inr jobCounts \<Rightarrow>
                  (case getJobs q Waiting 0 (- 1) of
                     Inl e \<Rightarrow> Inl e
                   | Inr waitingJobs \<Rightarrow>
                       (case getJobs q Delayed 0 (- 1) of
                          Inl e \<Rightarrow> Inl e
                        | Inr delayedJobs \<Rightarrow>
                            Inr \<lparr> r_jobCounts = jobCounts,
                                  orderedWaiting = js_sort byOrder (map waitingEntry waitingJobs),
                                  orderedDelayed = js_sort byOrder (map delayedEntry delayedJobs),
                                  totalOrder = currentOrder s,
                                  r_maxRetries = maxRetries s,
                                  r_retryDelay = retryDelay s \<rparr>)))))"

text \<open>
  \<^verbatim>\<open>cleanupOrderedJobs\<close> has no initialization check; everything it does is inside a
  \<^verbatim>\<open>try\<close> whose \<^verbatim>\<open>catch\<close> only logs.
\<close>

definition cleanupOrderedJobs ::
  "('a, 'q) getJobs_fn \<Rightarrow> ('a, 'r, 'q) sched \<Rightarrow> ('a, 'r, 'q) sched" where
  "cleanupOrderedJobs getJobs s =
     (case queue s of
        None \<Rightarrow> s
      | Some q \<Rightarrow>
          (case getJobs q Completed 0 (- 1) of
             Inl e \<Rightarrow> s
           | Inr completedJobs \<Rightarrow>
               (case getJobs q Failed 0 (- 1) of
                  Inl e \<Rightarrow> s
                | Inr failedJobs \<Rightarrow>
                    s\<lparr>processingOrder :=
                        fold (\<lambda>j m. m(job_id j := None)) (completedJobs @ failedJobs)
                          (processingOrder s)\<rparr>)))"

section \<open>Remaining guarded operations\<close>

definition getJob ::
  "('q \<Rightarrow> string \<Rightarrow> error + 'a job option) \<Rightarrow> ('a, 'r, 'q) sched \<Rightarrow> string
     \<Rightarrow> error + 'a job option" where
  "getJob bgetJob s jobId =
     (if \<not> isInitialized s then Inl NotInitializedError
      else (case queue s of None \<Rightarrow> Inl TypeError | Some q \<Rightarrow> bgetJob q jobId))"

definition getJobs ::
  "('a, 'q) getJobs_fn \<Rightarrow> ('a, 'r, 'q) sched \<Rightarrow> jobstatus \<Rightarrow> int \<Rightarrow> int
     \<Rightarrow> error + 'a job list" where
  "getJobs bgetJobs s status start' end' =
     (if \<not> isInitialized s then Inl NotInitializedError
      else (case queue s of None \<Rightarrow> Inl TypeError | Some q \<Rightarrow> bgetJobs q status start' end'))"

definition pause ::
  "('q \<Rightarrow> error + 'q) \<Rightarrow> ('a, 'r, 'q) sched \<Rightarrow> (error + unit) \<times> ('a, 'r, 'q) sched" where
  "pause bpause s =
     (if \<not> isInitialized s then (Inl NotInitializedError, s)
      else
        (case queue s of
           None \<Rightarrow> (Inl TypeError, s)
         | Some q \<Rightarrow>
             (case bpause q of
                Inl e \<Rightarrow> (Inl e, s)
              | Inr q' \<Rightarrow> (Inr (), s\<lparr>queue := Some q'\<rparr>))))"

definition resume ::
  "('q \<Rightarrow> error + 'q) \<Rightarrow> ('a, 'r, 'q) sched \<Rightarrow> (error + unit) \<times> ('a, 'r, 'q) sched" where
  "resume bresume s =
     (if \<not> isInitialized s then (Inl NotInitializedError, s)
      else
        (case queue s of
           None \<Rightarrow> (Inl TypeError, s)
         | Some q \<Rightarrow>
             (case bresume q of
                Inl e \<Rightarrow> (Inl e, s)
              | Inr q' \<Rightarrow> (Inr (), s\<lparr>queue := Some q'\<rparr>))))"

section \<open>A small backend for concrete runs\<close>

text \<open>
  The backend state is the number of jobs accepted so far. A job gets its custom
  \<^verbatim>\<open>jobId\<close> when the options carry one and the running number otherwise; once
  \<open>capacity\<close> jobs are stored, every further \<^verbatim>\<open>add\<close> throws.
\<close>

definition boundedAdd :: "nat \<Rightarrow> ('a, nat) add_fn" where
  "boundedAdd capacity q name data opts =
     (if q < capacity
      then Inr (case opt_jobId opts of None \<Rightarrow> digits_of (q + 1) | Some i \<Rightarrow> i, q + 1)
      else Inl (BackendError ''queue is full''))"

definition noOptions :: addopts where
  "noOptions = \<lparr> opt_delay = None, opt_priority = None, opt_attempts = None,
                 opt_backoff = None, opt_jobId = None \<rparr>"

definition fresh :: "(string, string, nat) sched" where
  "fresh = snd (initialize (\<lambda>n. Inr 0) (\<lambda>n. Inr ()) (constructor ''ordered-queue-with-retry''))"

text \<open>A second attempt of a lineage with order 0 and a budget of three retries.\<close>

definition sampleJob :: "string job" where
  "sampleJob =
     \<lparr> job_id = ''retry_1_1000'', job_name = ''ordered-task'',
       job_data = \<lparr> d_spread = ''payload'', d_order = Some 0, d_originalData = ''payload'',
                    d_retryCount = Some 1, d_maxRetries = Some 3,
                    d_previousJobId = Some ''1'' \<rparr>,
       job_opts = noOptions \<rparr>"

text \<open>A processor that always throws.\<close>

definition failing :: "(string, string) processor" where
  "failing data j = Inl (HandlerError ''boom'')"

text \<open>An attempt as the class writes it: id, order, retry count and retry budget.\<close>

definition envelope :: "string \<Rightarrow> nat \<Rightarrow> nat \<Rightarrow> nat \<Rightarrow> string job" where
  "envelope i ord rc mr =
     \<lparr> job_id = i, job_name = ''ordered-task'',
       job_data = \<lparr> d_spread = ''payload'', d_order = Some ord, d_originalData = ''payload'',
                    d_retryCount = Some rc, d_maxRetries = Some mr, d_previousJobId = None \<rparr>,
       job_opts = newJobOpts noOptions \<rparr>"

text \<open>
  A backend listing in arrival order, with its counts, and an order index that holds one
  waiting attempt and the two finished ones.
\<close>

definition sampleListing :: "(string, nat) getJobs_fn" where
  "sampleListing q status start' end' =
     Inr (case status of
            Waiting \<Rightarrow> [envelope ''3'' 2 0 3, envelope ''1'' 0 0 3, envelope ''2'' 1 0 3]
          | Delayed \<Rightarrow> [envelope ''retry_5_2000'' 4 1 3, envelope ''retry_4_3000'' 3 2 3]
          | Active \<Rightarrow> []
          | Completed \<Rightarrow> [envelope ''6'' 5 0 3]
          | Failed \<Rightarrow> [envelope ''7'' 6 3 3])"

definition sampleCounts :: counts where
  "sampleCounts = \<lparr> c_waiting = 3, c_active = 0, c_completed = 1, c_failed = 1, c_delayed = 2 \<rparr>"

definition sampleIndex :: "string \<rightharpoonup> nat option" where
  "sampleIndex = [''1'' \<mapsto> Some 0, ''6'' \<mapsto> Some 5, ''7'' \<mapsto> Some 6]"

text \<open>
  The retry of attempt \<open>1\<close> scheduled at time \<open>2000\<close> under the default configuration,
  the scheduler that the submission of attempt \<open>1\<close> and its first failure lead to, and the
  backend listing at that moment: attempt \<open>1\<close> failed, its retry delayed.
\<close>

definition firstRetry :: "string job" where
  "firstRetry =
     \<lparr> job_id = ''retry_1_2000'', job_name = ''ordered-task'',
       job_data = \<lparr> d_spread = ''payload'', d_order = Some 0, d_originalData = ''payload'',
                    d_retryCount = Some 1, d_maxRetries = Some 3,
                    d_previousJobId = Some ''1'' \<rparr>,
       job_opts = \<lparr> opt_delay = Some 60000, opt_priority = None, opt_attempts = Some 1,
                    opt_backoff = Some False, opt_jobId = Some ''retry_1_2000'' \<rparr> \<rparr>"

definition afterFirstFailure :: "(string, string, nat) sched" where
  "afterFirstFailure =
     fst (handleJobFailure (boundedAdd 9) 2000
            (snd (addJob (boundedAdd 9) fresh ''ordered-task'' ''payload'' noOptions))
            (envelope ''1'' 0 0 3))"

definition pendingRetryListing :: "(string, nat) getJobs_fn" where
  "pendingRetryListing q status start' end' =
     Inr (case status of
            Waiting \<Rightarrow> []
          | Delayed \<Rightarrow> [firstRetry]
          | Active \<Rightarrow> []
          | Completed \<Rightarrow> []
          | Failed \<Rightarrow> [envelope ''1'' 0 0 3])"

section \<open>Basic facts\<close>

lemma jsor_simps [simp]:
  "jsor None d = d"
  "jsor (Some 0) d = d"
  "0 < n \<Longrightarrow> jsor (Some n) d = n"
  "jsor (Some n) 0 = n"
  by (simp_all add: jsor_def)

lemma handleJobFailure_exhausted:
  "jsor (d_maxRetries (job_data j)) (maxRetries s) \<le> jsor (d_retryCount (job_data j)) 0
     \<Longrightarrow> handleJobFailure add now s j = (s, None)"
  by (simp add: handleJobFailure_def Let_def)

lemma handleJobFailure_rejected:
  "jsor (d_retryCount (job_data j)) 0 < jsor (d_maxRetries (job_data j)) (maxRetries s)
     \<Longrightarrow> queue s = Some q
     \<Longrightarrow> add q (job_name j) (retryData s j) (retryOpts s now j) = Inl e
     \<Longrightarrow> handleJobFailure add now s j = (s, None)"
  by (simp add: handleJobFailure_def Let_def)

lemma handleJobFailure_accepted:
  "jsor (d_retryCount (job_data j)) 0 < jsor (d_maxRetries (job_data j)) (maxRetries s)
     \<Longrightarrow> queue s = Some q
     \<Longrightarrow> add q (job_name j) (retryData s j) (retryOpts s now j) = Inr (rid, q')
     \<Longrightarrow> handleJobFailure add now s j =
           (s\<lparr>queue := Some q',
              processingOrder := (processingOrder s)(rid \<mapsto> d_order (job_data j))\<rparr>,
            Some \<lparr> job_id = rid, job_name = job_name j, job_data = retryData s j,
                   job_opts = retryOpts s now j \<rparr>)"
  by (simp add: handleJobFailure_def Let_def)

lemma handleJobFailure_Some:
  "handleJobFailure add now s j = (s', Some rj)
     \<Longrightarrow> jsor (d_retryCount (job_data j)) 0 < jsor (d_maxRetries (job_data j)) (maxRetries s)
         \<and> job_data rj = retryData s j \<and> job_opts rj = retryOpts s now j
         \<and> job_name rj = job_name j
         \<and> processingOrder s' (job_id rj) = Some (d_order (job_data j))
         \<and> maxRetries s' = maxRetries s \<and> retryDelay s' = retryDelay s
         \<and> currentOrder s' = currentOrder s"
  by (auto simp: handleJobFailure_def Let_def split: if_splits option.splits sum.splits)

lemma handleJobFailure_budget:
  "jsor (d_retryCount (job_data j)) 0 < jsor (d_maxRetries (job_data j)) (maxRetries s)
     \<Longrightarrow> queue s = Some q
     \<Longrightarrow> handleJobFailure add now s j =
           (case add q (job_name j) (retryData s j) (retryOpts s now j) of
              Inl e \<Rightarrow> (s, None)
            | Inr (rid, q') \<Rightarrow>
                (s\<lparr>queue := Some q',
                   processingOrder := (processingOrder s)(rid \<mapsto> d_order (job_data j))\<rparr>,
                 Some \<lparr> job_id = rid, job_name = job_name j, job_data = retryData s j,
                        job_opts = retryOpts s now j \<rparr>))"
  by (simp add: handleJobFailure_def Let_def)

lemma fresh_fields [simp]:
  "queue fresh = Some 0" "isInitialized fresh" "currentOrder fresh = 0"
  "maxRetries fresh = 3" "retryDelay fresh = 60000" "processors fresh = Map.empty"
  "processingOrder fresh = Map.empty"
  by (simp_all add: fresh_def initialize_def constructor_def)

lemma addJob_uninitialized:
  "\<not> isInitialized s \<Longrightarrow> addJob add s n d opts = (Inl NotInitializedError, s)"
  by (simp add: addJob_def)

lemma addJob_currentOrder:
  "isInitialized s \<Longrightarrow> currentOrder (snd (addJob add s n d opts)) = currentOrder s + 1"
  by (simp add: addJob_def Let_def split: option.splits sum.splits)

lemma addJob_Inl:
  "isInitialized s \<Longrightarrow> addJob add s n d opts = (Inl e, s1)
     \<Longrightarrow> s1 = s\<lparr>currentOrder := currentOrder s + 1\<rparr>"
  by (auto simp: addJob_def Let_def split: option.splits sum.splits)

lemma addJob_Inr:
  "addJob add s n d opts = (Inr j, s1)
     \<Longrightarrow> isInitialized s \<and> isInitialized s1
       \<and> job_name j = n
       \<and> job_data j = newJobData s (currentOrder s) d
       \<and> job_opts j = newJobOpts opts
       \<and> currentOrder s1 = currentOrder s + 1
       \<and> maxRetries s1 = maxRetries s \<and> retryDelay s1 = retryDelay s
       \<and> processingOrder s1 (job_id j) = Some (Some (currentOrder s))"
  by (auto simp: addJob_def Let_def newJobData_def split: if_splits option.splits sum.splits)

lemma digits_of_2000: "digits_of 2000 = ''2000''"
  by (simp add: digits_of.simps digit_char_def)

lemma digits_of_small: "n < 10 \<Longrightarrow> digits_of n = [digit_char n]"
  by (simp add: digits_of.simps)

lemmas run_defs =
  addJob_def Let_def boundedAdd_def setRetryConfig_def newJobData_def envelope_def
  noOptions_def newJobOpts_def digits_of_small digit_char_def handleJobFailure_def
  retryData_def retryOpts_def jsor_def registerProcessor_def

section \<open>Retry coordinator\<close>

text \<open>
  Claim C1, as stated, fails when the backend rejects the retry submission: the second
  attempt of a lineage with a budget of three fails, the backend is full, and no new
  envelope exists afterwards; the scheduler is the one before the call.
\<close>

theorem rejected_retry_is_not_resubmitted:
  "d_retryCount (job_data sampleJob) = Some 1
   \<and> d_maxRetries (job_data sampleJob) = Some 3
   \<and> handleJobFailure (boundedAdd 0) 2000 fresh sampleJob = (fresh, None)"
  by (simp add: sampleJob_def handleJobFailure_def Let_def boundedAdd_def)

text \<open>
  Claim C1, amended. A failed attempt whose \<open>retryCount\<close> is strictly below its
  \<open>maxRetries\<close> makes \<^verbatim>\<open>handleJobFailure\<close> submit to the backend, under the name of the
  failed attempt, one envelope with the same payload, the same order, the same
  \<open>maxRetries\<close>, \<open>retryCount\<close> one higher (hence within \<open>1..maxRetries\<close>) and
  \<open>previousJobId\<close> the failed attempt's id, delayed by the configured \<open>retryDelay\<close> with
  a single backend attempt. When the backend accepts it, the retry job is that envelope
  under the id the backend returned, the order index maps that id to the unchanged order
  and the backend state is the returned one; when the backend rejects it, there is no
  retry job and the scheduler is unchanged.
\<close>

theorem handleJobFailure_resubmits:
  assumes "d_retryCount (job_data j) = Some r" and "d_maxRetries (job_data j) = Some m"
    and "r < m" and "queue s = Some q"
  shows "handleJobFailure add now s j =
           (case add q (job_name j) (retryData s j) (retryOpts s now j) of
              Inl e \<Rightarrow> (s, None)
            | Inr (rid, q') \<Rightarrow>
                (s\<lparr>queue := Some q',
                   processingOrder := (processingOrder s)(rid \<mapsto> d_order (job_data j))\<rparr>,
                 Some \<lparr> job_id = rid, job_name = job_name j, job_data = retryData s j,
                        job_opts = retryOpts s now j \<rparr>))
       \<and> d_spread (retryData s j) = d_originalData (job_data j)
       \<and> d_originalData (retryData s j) = d_originalData (job_data j)
       \<and> d_order (retryData s j) = d_order (job_data j)
       \<and> d_maxRetries (retryData s j) = Some m
       \<and> d_retryCount (retryData s j) = Some (r + 1)
       \<and> r + 1 \<in> {1..m}
       \<and> d_previousJobId (retryData s j) = Some (job_id j)
       \<and> opt_delay (retryOpts s now j) = Some (retryDelay s)
       \<and> opt_priority (retryOpts s now j) = None
       \<and> opt_attempts (retryOpts s now j) = Some 1
       \<and> opt_backoff (retryOpts s now j) = Some False
       \<and> opt_jobId (retryOpts s now j) = Some (''retry_'' @ job_id j @ ''_'' @ digits_of now)"
proof -
  from assms have budget:
    "jsor (d_retryCount (job_data j)) 0 < jsor (d_maxRetries (job_data j)) (maxRetries s)"
    by simp
  have run: "handleJobFailure add now s j =
           (case add q (job_name j) (retryData s j) (retryOpts s now j) of
              Inl e \<Rightarrow> (s, None)
            | Inr (rid, q') \<Rightarrow>
                (s\<lparr>queue := Some q',
                   processingOrder := (processingOrder s)(rid \<mapsto> d_order (job_data j))\<rparr>,
                 Some \<lparr> job_id = rid, job_name = job_name j, job_data = retryData s j,
                        job_opts = retryOpts s now j \<rparr>))"
    using budget assms(4) by (rule handleJobFailure_budget)
  have fields:
    "d_spread (retryData s j) = d_originalData (job_data j)
     \<and> d_originalData (retryData s j) = d_originalData (job_data j)
     \<and> d_order (retryData s j) = d_order (job_data j)
     \<and> d_maxRetries (retryData s j) = Some m
     \<and> d_retryCount (retryData s j) = Some (r + 1)
     \<and> r + 1 \<in> {1..m}
     \<and> d_previousJobId (retryData s j) = Some (job_id j)"
    using assms by (simp add: retryData_def)
  have opts:
    "opt_delay (retryOpts s now j) = Some (retryDelay s)
     \<and> opt_priority (retryOpts s now j) = None
     \<and> opt_attempts (retryOpts s now j) = Some 1
     \<and> opt_backoff (retryOpts s now j) = Some False
     \<and> opt_jobId (retryOpts s now j) = Some (''retry_'' @ job_id j @ ''_'' @ digits_of now)"
    by (simp add: retryOpts_def)
  from run fields opts show ?thesis by (intro conjI) blast+
qed

theorem handleJobFailure_resubmits_witness:
  "d_retryCount (job_data sampleJob) = Some 1 \<and> d_maxRetries (job_data sampleJob) = Some 3
   \<and> queue fresh = Some 0
   \<and> handleJobFailure (boundedAdd 5) 2000 fresh sampleJob =
       (fresh\<lparr>queue := Some 1,
              processingOrder := (processingOrder fresh)(''retry_retry_1_1000_2000'' \<mapsto> Some 0)\<rparr>,
        Some \<lparr> job_id = ''retry_retry_1_1000_2000'', job_name = ''ordered-task'',
               job_data = retryData fresh sampleJob,
               job_opts = retryOpts fresh 2000 sampleJob \<rparr>)
   \<and> d_order (retryData fresh sampleJob) = Some 0
   \<and> d_maxRetries (retryData fresh sampleJob) = Some 3
   \<and> d_retryCount (retryData fresh sampleJob) = Some 2
   \<and> d_previousJobId (retryData fresh sampleJob) = Some ''retry_1_1000''
   \<and> opt_delay (retryOpts fresh 2000 sampleJob) = Some 60000"
proof -
  let ?s = "fresh :: (string, string, nat) sched"
  have h1: "d_retryCount (job_data sampleJob) = Some 1" by (simp add: sampleJob_def)
  have h2: "d_maxRetries (job_data sampleJob) = Some 3" by (simp add: sampleJob_def)
  have h3: "(1::nat) < 3" by simp
  have h4: "queue ?s = Some 0" by simp
  have a: "boundedAdd 5 0 (job_name sampleJob) (retryData ?s sampleJob)
             (retryOpts ?s 2000 sampleJob) = Inr (''retry_retry_1_1000_2000'', 1)"
    by (simp add: boundedAdd_def retryOpts_def sampleJob_def digits_of_2000)
  note t = handleJobFailure_resubmits
             [where j = sampleJob and r = 1 and m = 3 and s = ?s and q = 0
                and add = "boundedAdd 5" and now = 2000, OF h1 h2 h3 h4]
  from t a h1 h2 h4 show ?thesis
    by (simp add: sampleJob_def)
qed

lemma failRepeatedly_None:
  "handleJobFailure add now s j = (s', None) \<Longrightarrow> failRepeatedly add (now # nows) s j = (s', [])"
  by simp

text \<open>
  Claim C10. \<^verbatim>\<open>handleJobFailure\<close> hands no error to its caller. When the retry budget is
  not exhausted and the backend rejects the retry submission, the scheduler is left as it
  was and no retry job exists; the worker callback still rethrows the processor's own
  error; and, there being no new attempt, the lineage has no resubmission however long
  one waits.
\<close>

theorem handleJobFailure_swallows_backend_error:
  assumes "jsor (d_retryCount (job_data j)) 0 < jsor (d_maxRetries (job_data j)) (maxRetries s)"
    and "queue s = Some q"
    and "add q (job_name j) (retryData s j) (retryOpts s now j) = Inl e"
    and "processors s (job_name j) = Some p"
    and "p (d_originalData (job_data j)) j = Inl he"
  shows "handleJobFailure add now s j = (s, None)
       \<and> worker_callback add now s j = (Inl he, s, None)
       \<and> failRepeatedly add (now # nows) s j = (s, [])"
proof -
  have r: "handleJobFailure add now s j = (s, None)"
    using assms(1-3) by (rule handleJobFailure_rejected)
  moreover have "worker_callback add now s j = (Inl he, s, None)"
    using assms(4,5) r by (simp add: worker_callback_def)
  moreover have "failRepeatedly add (now # nows) s j = (s, [])"
    using r by (rule failRepeatedly_None)
  ultimately show ?thesis by simp
qed

theorem handleJobFailure_swallows_backend_error_witness:
  "handleJobFailure (boundedAdd 0) 2000 (registerProcessor fresh ''ordered-task'' failing) sampleJob
     = (registerProcessor fresh ''ordered-task'' failing, None)
   \<and> worker_callback (boundedAdd 0) 2000 (registerProcessor fresh ''ordered-task'' failing) sampleJob
     = (Inl (HandlerError ''boom''), registerProcessor fresh ''ordered-task'' failing, None)
   \<and> failRepeatedly (boundedAdd 0) [2000, 3000] (registerProcessor fresh ''ordered-task'' failing)
        sampleJob
     = (registerProcessor fresh ''ordered-task'' failing, [])"
proof -
  let ?s = "registerProcessor fresh ''ordered-task'' failing :: (string, string, nat) sched"
  have h1: "jsor (d_retryCount (job_data sampleJob)) 0
              < jsor (d_maxRetries (job_data sampleJob)) (maxRetries ?s)"
    by (simp add: sampleJob_def)
  have h2: "queue ?s = Some 0" by (simp add: registerProcessor_def)
  have h3: "boundedAdd 0 0 (job_name sampleJob) (retryData ?s sampleJob)
              (retryOpts ?s 2000 sampleJob) = Inl (BackendError ''queue is full'')"
    by (simp add: boundedAdd_def)
  have h4: "processors ?s (job_name sampleJob) = Some failing"
    by (simp add: registerProcessor_def sampleJob_def)
  have h5: "failing (d_originalData (job_data sampleJob)) sampleJob = Inl (HandlerError ''boom'')"
    by (simp add: failing_def)
  from handleJobFailure_swallows_backend_error
         [where add = "boundedAdd 0" and p = failing and s = ?s and j = sampleJob
            and q = 0 and now = 2000 and nows = "[3000]", OF h1 h2 h3 h4 h5]
  show ?thesis by simp
qed

lemma handleJobFailure_processors_frame:
  "handleJobFailure add now (s\<lparr>processors := P\<rparr>) j =
     (fst (handleJobFailure add now s j)\<lparr>processors := P\<rparr>, snd (handleJobFailure add now s j))"
  by (simp add: handleJobFailure_def Let_def retryData_def retryOpts_def
        split: option.splits sum.splits)

text \<open>
  Claim C5, as stated, fails when the backend rejects the retry submission: an attempt
  with budget left is delivered, no processor is registered for its name, the backend is
  full, and no resubmission is scheduled; the scheduler is the one before the delivery.
\<close>

theorem missing_processor_retry_can_be_rejected:
  "processors fresh (job_name sampleJob) = None
   \<and> jsor (d_retryCount (job_data sampleJob)) 0
       < jsor (d_maxRetries (job_data sampleJob)) (maxRetries fresh)
   \<and> worker_callback (boundedAdd 0) 2000 fresh sampleJob
       = (Inl (NoProcessorError ''ordered-task''), fresh, None)"
  by (simp add: sampleJob_def worker_callback_def handleJobFailure_def Let_def boundedAdd_def)

text \<open>
  Claim C5, amended. A delivery whose name has no registered processor fails with the
  no-processor error and is accounted exactly as a delivery whose processor throws. With
  the budget exhausted nothing is submitted and the scheduler is unchanged. With budget
  left, one retry envelope with \<open>retryCount\<close> one higher, the same order and the
  configured \<open>retryDelay\<close> is submitted to the backend: when the backend accepts it, the
  retry job exists under the returned id, the order index maps that id to the order and
  the backend state is the returned one; when the backend rejects it, nothing is
  scheduled and the scheduler is unchanged. A delivery whose registered processor throws
  ends with the same retry job and the same scheduler, up to the registration itself.
\<close>

theorem missing_processor_is_retried_like_failure:
  assumes "processors s (job_name j) = None"
    and "p (d_originalData (job_data j)) j = Inl e"
    and "queue s = Some q"
  shows "worker_callback add now s j =
           (Inl (NoProcessorError (job_name j)),
            if jsor (d_maxRetries (job_data j)) (maxRetries s) \<le> jsor (d_retryCount (job_data j)) 0
            then (s, None)
            else
              (case add q (job_name j) (retryData s j) (retryOpts s now j) of
                 Inl e' \<Rightarrow> (s, None)
               | Inr (rid, q') \<Rightarrow>
                   (s\<lparr>queue := Some q',
                      processingOrder := (processingOrder s)(rid \<mapsto> d_order (job_data j))\<rparr>,
                    Some \<lparr> job_id = rid, job_name = job_name j, job_data = retryData s j,
                           job_opts = retryOpts s now j \<rparr>)))
       \<and> worker_callback add now (registerProcessor s (job_name j) p) j =
           (Inl e,
            registerProcessor (fst (snd (worker_callback add now s j))) (job_name j) p,
            snd (snd (worker_callback add now s j)))
       \<and> d_retryCount (retryData s j) = Some (jsor (d_retryCount (job_data j)) 0 + 1)
       \<and> d_order (retryData s j) = d_order (job_data j)
       \<and> d_originalData (retryData s j) = d_originalData (job_data j)
       \<and> opt_delay (retryOpts s now j) = Some (retryDelay s)"
proof -
  have a: "worker_callback add now s j =
             (Inl (NoProcessorError (job_name j)), handleJobFailure add now s j)"
    using assms(1) by (simp add: worker_callback_def)
  have h: "handleJobFailure add now s j =
            (if jsor (d_maxRetries (job_data j)) (maxRetries s) \<le> jsor (d_retryCount (job_data j)) 0
             then (s, None)
             else
               (case add q (job_name j) (retryData s j) (retryOpts s now j) of
                  Inl e' \<Rightarrow> (s, None)
                | Inr (rid, q') \<Rightarrow>
                    (s\<lparr>queue := Some q',
                       processingOrder := (processingOrder s)(rid \<mapsto> d_order (job_data j))\<rparr>,
                     Some \<lparr> job_id = rid, job_name = job_name j, job_data = retryData s j,
                            job_opts = retryOpts s now j \<rparr>)))"
  proof (cases "jsor (d_maxRetries (job_data j)) (maxRetries s)
                  \<le> jsor (d_retryCount (job_data j)) 0")
    case True
    then show ?thesis by (simp add: handleJobFailure_exhausted)
  next
    case False
    then have "jsor (d_retryCount (job_data j)) 0
                 < jsor (d_maxRetries (job_data j)) (maxRetries s)"
      by simp
    from handleJobFailure_budget [OF this assms(3)] False show ?thesis
      by simp
  qed
  have b: "worker_callback add now (registerProcessor s (job_name j) p) j =
             (Inl e, handleJobFailure add now (registerProcessor s (job_name j) p) j)"
    using assms(2) by (simp add: worker_callback_def registerProcessor_def)
  have c: "handleJobFailure add now (registerProcessor s (job_name j) p) j =
             (registerProcessor (fst (handleJobFailure add now s j)) (job_name j) p,
              snd (handleJobFailure add now s j))"
    unfolding registerProcessor_def
    by (simp add: handleJobFailure_processors_frame)
       (simp add: handleJobFailure_def Let_def split: option.splits sum.splits)
  have d: "worker_callback add now (registerProcessor s (job_name j) p) j =
           (Inl e,
            registerProcessor (fst (snd (worker_callback add now s j))) (job_name j) p,
            snd (snd (worker_callback add now s j)))"
    by (simp only: a b c fst_conv snd_conv)
  have f: "d_retryCount (retryData s j) = Some (jsor (d_retryCount (job_data j)) 0 + 1)
         \<and> d_order (retryData s j) = d_order (job_data j)
         \<and> d_originalData (retryData s j) = d_originalData (job_data j)
         \<and> opt_delay (retryOpts s now j) = Some (retryDelay s)"
    by (simp add: retryData_def retryOpts_def)
  have a': "worker_callback add now s j =
           (Inl (NoProcessorError (job_name j)),
            if jsor (d_maxRetries (job_data j)) (maxRetries s) \<le> jsor (d_retryCount (job_data j)) 0
            then (s, None)
            else
              (case add q (job_name j) (retryData s j) (retryOpts s now j) of
                 Inl e' \<Rightarrow> (s, None)
               | Inr (rid, q') \<Rightarrow>
                   (s\<lparr>queue := Some q',
                      processingOrder := (processingOrder s)(rid \<mapsto> d_order (job_data j))\<rparr>,
                    Some \<lparr> job_id = rid, job_name = job_name j, job_data = retryData s j,
                           job_opts = retryOpts s now j \<rparr>)))"
    by (simp only: a h)
  from a' d f show ?thesis by (intro conjI) blast+
qed

theorem missing_processor_is_retried_like_failure_witness:
  "processors fresh (job_name sampleJob) = None
   \<and> queue fresh = Some 0
   \<and> worker_callback (boundedAdd 5) 2000 fresh sampleJob =
       (Inl (NoProcessorError ''ordered-task''),
        fresh\<lparr>queue := Some 1,
              processingOrder := (processingOrder fresh)(''retry_retry_1_1000_2000'' \<mapsto> Some 0)\<rparr>,
        Some \<lparr> job_id = ''retry_retry_1_1000_2000'', job_name = ''ordered-task'',
               job_data = retryData fresh sampleJob,
               job_opts = retryOpts fresh 2000 sampleJob \<rparr>)
   \<and> snd (snd (worker_callback (boundedAdd 5) 2000
                  (registerProcessor fresh (job_name sampleJob) failing) sampleJob))
       = snd (snd (worker_callback (boundedAdd 5) 2000 fresh sampleJob))
   \<and> d_retryCount (retryData fresh sampleJob) = Some 2
   \<and> opt_delay (retryOpts fresh 2000 sampleJob) = Some 60000"
proof -
  let ?s = "fresh :: (string, string, nat) sched"
  have h1: "processors ?s (job_name sampleJob) = None" by simp
  have h2: "failing (d_originalData (job_data sampleJob)) sampleJob = Inl (HandlerError ''boom'')"
    by (simp add: failing_def)
  have h3: "queue ?s = Some 0" by simp
  have a: "boundedAdd 5 0 (job_name sampleJob) (retryData ?s sampleJob)
             (retryOpts ?s 2000 sampleJob) = Inr (''retry_retry_1_1000_2000'', 1)"
    by (simp add: boundedAdd_def retryOpts_def sampleJob_def digits_of_2000)
  note t = missing_processor_is_retried_like_failure
         [where s = ?s and j = sampleJob and p = failing and add = "boundedAdd 5"
            and now = 2000 and q = 0, OF h1 h2 h3]
  from t a h1 h3 show ?thesis
    by (simp add: sampleJob_def)
qed

section \<open>Retry budget\<close>

text \<open>
  With a captured budget of at least one, a lineage that fails at every delivery is
  resubmitted at most \<open>maxRetries - retryCount\<close> more times.
\<close>

lemma failRepeatedly_bound:
  "d_maxRetries (job_data j) = Some m \<Longrightarrow> 0 < m \<Longrightarrow> d_retryCount (job_data j) = Some r
     \<Longrightarrow> length (snd (failRepeatedly add nows s j)) \<le> m - r"
proof (induction nows arbitrary: s j r)
  case Nil
  then show ?case by simp
next
  case (Cons now nows)
  show ?case
  proof (cases "handleJobFailure add now s j")
    case (Pair s1 res)
    show ?thesis
    proof (cases res)
      case None
      with Pair show ?thesis by simp
    next
      case (Some rj)
      from handleJobFailure_Some [OF Pair [unfolded Some]] Cons.prems
      have lt: "r < m" and rj: "job_data rj = retryData s j"
        by simp_all
      from rj Cons.prems have
        "d_maxRetries (job_data rj) = Some m" "d_retryCount (job_data rj) = Some (r + 1)"
        by (simp_all add: retryData_def)
      from Cons.IH [OF this(1) Cons.prems(2) this(2)]
      have "length (snd (failRepeatedly add nows s1 rj)) \<le> m - (r + 1)" .
      with lt Pair Some show ?thesis
        by (auto split: prod.splits)
    qed
  qed
qed

text \<open>
  Claim C2 says that a lineage is resubmitted at most \<open>maxRetries\<close> times. A lineage
  submitted while the configured budget is \<open>0\<close> carries \<open>_maxRetries = 0\<close>; when the
  configuration is \<open>3\<close> at the time it fails, \<^verbatim>\<open>job.data._maxRetries || this.maxRetries\<close>
  takes the \<open>0\<close> for a missing value, and the lineage is resubmitted three times, each
  retry carrying the budget \<open>3\<close>.
\<close>

theorem zero_budget_lineage_is_retried:
  "fst (addJob (boundedAdd 9) (setRetryConfig fresh 0 1000) ''ordered-task'' ''payload'' noOptions)
     = Inr (envelope ''1'' 0 0 0)
   \<and> map (\<lambda>j. (d_retryCount (job_data j), d_maxRetries (job_data j)))
       (snd (failRepeatedly (boundedAdd 9) [2000, 3000, 4000, 5000, 6000]
          (setRetryConfig
             (snd (addJob (boundedAdd 9) (setRetryConfig fresh 0 1000) ''ordered-task'' ''payload''
                     noOptions)) 3 1000)
          (envelope ''1'' 0 0 0)))
     = [(Some 1, Some 3), (Some 2, Some 3), (Some 3, Some 3)]"
  by (simp add: addJob_def Let_def boundedAdd_def setRetryConfig_def newJobData_def
        envelope_def noOptions_def newJobOpts_def digits_of_small digit_char_def
        handleJobFailure_def retryData_def retryOpts_def jsor_def)

section \<open>Changing the retry configuration\<close>

text \<open>
  Claim C4, as stated, fails on the delay: a lineage submitted while \<open>retryDelay\<close> is
  \<open>1000\<close> and failing after \<^verbatim>\<open>setRetryConfig(3, 5)\<close> is retried with delay \<open>5\<close>.
\<close>

theorem retry_delay_is_read_at_failure_time:
  "retryDelay (setRetryConfig fresh 3 1000) = 1000
   \<and> fst (addJob (boundedAdd 9) (setRetryConfig fresh 3 1000) ''ordered-task'' ''payload'' noOptions)
       = Inr (envelope ''1'' 0 0 3)
   \<and> map_option job_delay
       (snd (handleJobFailure (boundedAdd 9) 2000
          (setRetryConfig
             (snd (addJob (boundedAdd 9) (setRetryConfig fresh 3 1000) ''ordered-task'' ''payload''
                     noOptions)) 3 5)
          (envelope ''1'' 0 0 3)))
       = Some (Some 5)"
  by (simp add: run_defs job_delay_def)

text \<open>
  Claim C4, amended. \<^verbatim>\<open>setRetryConfig\<close> sets the budget captured by every lineage
  submitted after the call. For an attempt that carries a budget of at least one, the
  retry decision and the retry job do not depend on the configured budget: the captured
  one decides and is copied unchanged. The delay of a retry is the \<open>retryDelay\<close>
  configured when the failure is handled.
\<close>

theorem setRetryConfig_scope:
  assumes "d_maxRetries (job_data j) = Some m" and "0 < m"
  shows "(\<forall>j' s'. addJob add (setRetryConfig s m' d') n data opts = (Inr j', s')
            \<longrightarrow> d_maxRetries (job_data j') = Some m')
       \<and> snd (handleJobFailure add now (setRetryConfig s m' d') j)
           = snd (handleJobFailure add now (setRetryConfig s m d') j)
       \<and> (m \<le> jsor (d_retryCount (job_data j)) 0
            \<longrightarrow> handleJobFailure add now (setRetryConfig s m' d') j
                = (setRetryConfig s m' d', None))
       \<and> (\<forall>s' rj. handleJobFailure add now (setRetryConfig s m' d') j = (s', Some rj)
            \<longrightarrow> jsor (d_retryCount (job_data j)) 0 < m
              \<and> d_maxRetries (job_data rj) = Some m
              \<and> opt_delay (job_opts rj) = Some d')"
proof -
  have a: "\<forall>j' s'. addJob add (setRetryConfig s m' d') n data opts = (Inr j', s')
            \<longrightarrow> d_maxRetries (job_data j') = Some m'"
    by (auto dest!: addJob_Inr simp: newJobData_def setRetryConfig_def)
  have b: "snd (handleJobFailure add now (setRetryConfig s m' d') j)
             = snd (handleJobFailure add now (setRetryConfig s m d') j)"
    using assms by (simp add: handleJobFailure_def Let_def setRetryConfig_def retryData_def retryOpts_def
        split: option.splits sum.splits)
  have c: "m \<le> jsor (d_retryCount (job_data j)) 0
            \<longrightarrow> handleJobFailure add now (setRetryConfig s m' d') j
                = (setRetryConfig s m' d', None)"
    using assms by (simp add: handleJobFailure_exhausted)
  have d: "\<forall>s' rj. handleJobFailure add now (setRetryConfig s m' d') j = (s', Some rj)
            \<longrightarrow> jsor (d_retryCount (job_data j)) 0 < m
              \<and> d_maxRetries (job_data rj) = Some m
              \<and> opt_delay (job_opts rj) = Some d'"
    using assms
    by (auto dest!: handleJobFailure_Some simp: retryData_def retryOpts_def setRetryConfig_def)
  from a b c d show ?thesis by blast
qed

theorem setRetryConfig_scope_witness:
  "d_maxRetries (job_data sampleJob) = Some 3
   \<and> (\<exists>j' s'. addJob (boundedAdd 5) (setRetryConfig fresh 7 5) ''a'' ''x'' noOptions = (Inr j', s')
          \<and> d_maxRetries (job_data j') = Some 7)
   \<and> (\<exists>s' rj. handleJobFailure (boundedAdd 5) 2000 (setRetryConfig fresh 7 5) sampleJob
                = (s', Some rj)
          \<and> d_maxRetries (job_data rj) = Some 3
          \<and> opt_delay (job_opts rj) = Some 5)"
proof -
  let ?s = "fresh :: (string, string, nat) sched"
  have h1: "d_maxRetries (job_data sampleJob) = Some 3" by (simp add: sampleJob_def)
  have h2: "(0::nat) < 3" by simp
  note t = setRetryConfig_scope
             [where j = sampleJob and m = 3 and s = ?s and m' = 7 and d' = 5
                and add = "boundedAdd 5" and now = 2000 and n = "''a''" and data = "''x''"
                and opts = noOptions, OF h1 h2]
  have "\<exists>j' s'. addJob (boundedAdd 5) (setRetryConfig ?s 7 5) ''a'' ''x'' noOptions = (Inr j', s')"
    by (simp add: addJob_def Let_def boundedAdd_def setRetryConfig_def)
  moreover have
    "\<exists>s' rj. handleJobFailure (boundedAdd 5) 2000 (setRetryConfig ?s 7 5) sampleJob = (s', Some rj)"
    by (simp add: handleJobFailure_def Let_def boundedAdd_def setRetryConfig_def sampleJob_def)
  ultimately show ?thesis using t h1 by blast
qed

section \<open>Order assignment\<close>

text \<open>
  Claim C9. On an initialized scheduler \<^verbatim>\<open>addJob\<close> increments the order counter before
  it calls the backend, whatever the backend then does. When the backend throws, the
  scheduler differs from the one before the call exactly by the consumed number, and the
  next successful \<^verbatim>\<open>addJob\<close> is assigned the order after the consumed one.
\<close>

theorem addJob_consumes_order_on_failure:
  assumes "isInitialized s"
    and "addJob add s n d opts = (Inl e, s1)"
    and "addJob add' s1 n' d' opts' = (Inr j, s2)"
  shows "currentOrder (snd (addJob anyAdd s n d opts)) = currentOrder s + 1
       \<and> s1 = s\<lparr>currentOrder := currentOrder s + 1\<rparr>
       \<and> d_order (job_data j) = Some (currentOrder s + 1)
       \<and> currentOrder s2 = currentOrder s + 2"
proof -
  have a: "currentOrder (snd (addJob anyAdd s n d opts)) = currentOrder s + 1"
    using assms(1) by (rule addJob_currentOrder)
  have b: "s1 = s\<lparr>currentOrder := currentOrder s + 1\<rparr>"
    using assms(1,2) by (rule addJob_Inl)
  from addJob_Inr [OF assms(3)] a b show ?thesis
    by (simp add: newJobData_def)
qed

theorem addJob_consumes_order_on_failure_witness:
  "isInitialized fresh
   \<and> fst (addJob (boundedAdd 0) fresh ''a'' ''x'' noOptions) = Inl (BackendError ''queue is full'')
   \<and> (\<exists>j. fst (addJob (boundedAdd 1) (snd (addJob (boundedAdd 0) fresh ''a'' ''x'' noOptions))
                ''b'' ''y'' noOptions) = Inr j
          \<and> d_order (job_data j) = Some 1)
   \<and> currentOrder (snd (addJob (boundedAdd 1) fresh ''a'' ''x'' noOptions)) = 1"
proof -
  let ?s1 = "snd (addJob (boundedAdd 0) fresh ''a'' ''x'' noOptions)"
  let ?r2 = "addJob (boundedAdd 1) ?s1 ''b'' ''y'' noOptions"
  have h1: "isInitialized (fresh :: (string, string, nat) sched)" by simp
  have f1: "fst (addJob (boundedAdd 0) fresh ''a'' ''x'' noOptions)
              = Inl (BackendError ''queue is full'')"
    by (simp add: addJob_def Let_def boundedAdd_def)
  then have h2: "addJob (boundedAdd 0) fresh ''a'' ''x'' noOptions
              = (Inl (BackendError ''queue is full''), ?s1)"
    by (simp add: prod_eq_iff)
  obtain j where f2: "fst ?r2 = Inr j"
    by (simp add: addJob_def Let_def boundedAdd_def)
  then have h3: "?r2 = (Inr j, snd ?r2)"
    by (simp add: prod_eq_iff)
  from addJob_consumes_order_on_failure [OF h1 h2 h3, of "boundedAdd 1"] h1 f1 f2
  show ?thesis by simp
qed

lemma initialize_ok:
  "initialize nq ns (constructor name) = (Inr (), s)
     \<Longrightarrow> isInitialized s \<and> currentOrder s = 0 \<and> queue s \<noteq> None
       \<and> maxRetries s = 3 \<and> retryDelay s = 60000"
  by (auto simp: initialize_def constructor_def split: sum.splits)

lemma addJobs_orders:
  "isInitialized s \<Longrightarrow> addJobs add s reqs = (Inr js, s')
     \<Longrightarrow> map (\<lambda>j. d_order (job_data j)) js
           = map Some [currentOrder s ..< currentOrder s + length reqs]
       \<and> map job_name js = map fst reqs
       \<and> currentOrder s' = currentOrder s + length reqs"
proof (induction reqs arbitrary: s js s')
  case Nil
  then show ?case by simp
next
  case (Cons req reqs)
  obtain n d opts where req: "req = (n, d, opts)" by (cases req)
  from Cons.prems(2) req obtain j s1 js1 where
    first: "addJob add s n d opts = (Inr j, s1)" and
    rest: "addJobs add s1 reqs = (Inr js1, s')" and
    js: "js = j # js1"
    by (auto split: prod.splits sum.splits)
  from addJob_Inr [OF first] have
    j: "d_order (job_data j) = Some (currentOrder s)" "job_name j = n" and
    s1: "isInitialized s1" "currentOrder s1 = currentOrder s + 1"
    by (simp_all add: newJobData_def)
  from Cons.IH [OF s1(1) rest] have ih:
    "map (\<lambda>j. d_order (job_data j)) js1
       = map Some [currentOrder s1 ..< currentOrder s1 + length reqs]"
    "map job_name js1 = map fst reqs"
    "currentOrder s' = currentOrder s1 + length reqs"
    by blast+
  have "[currentOrder s ..< currentOrder s + length (req # reqs)]
          = currentOrder s # [currentOrder s1 ..< currentOrder s1 + length reqs]"
    using s1(2) by (simp add: upt_conv_Cons del: upt_Suc)
  with j js req ih s1(2) show ?case
    by (simp del: upt_Suc)
qed

text \<open>
  Claim C3. On a scheduler that has just been initialized, \<open>N\<close> successive \<^verbatim>\<open>addJob\<close>
  calls that all succeed assign the orders \<open>0, 1, ..., N - 1\<close> in call order, and the
  counter ends at \<open>N\<close>.
\<close>

theorem addJobs_orders_from_zero:
  assumes "initialize nq ns (constructor name) = (Inr (), s)"
    and "addJobs add s reqs = (Inr js, s')"
  shows "map (\<lambda>j. d_order (job_data j)) js = map Some [0 ..< length reqs]
       \<and> length js = length reqs
       \<and> currentOrder s' = length reqs"
proof -
  from initialize_ok [OF assms(1)] have i: "isInitialized s" and z: "currentOrder s = 0"
    by simp_all
  from addJobs_orders [OF i assms(2)] z
  have *: "map (\<lambda>j. d_order (job_data j)) js = map Some [0 ..< length reqs]"
    and **: "currentOrder s' = length reqs"
    by simp_all
  from * have "length js = length [0 ..< length reqs]"
    by (rule map_eq_imp_length_eq)
  with * ** show ?thesis by simp
qed

theorem addJobs_orders_from_zero_witness:
  "\<exists>js s'. addJobs (boundedAdd 5) fresh
              [(''a'', ''x'', noOptions), (''b'', ''y'', noOptions), (''c'', ''z'', noOptions)]
              = (Inr js, s')
         \<and> map (\<lambda>j. d_order (job_data j)) js = [Some 0, Some 1, Some 2]
         \<and> length js = 3 \<and> currentOrder s' = 3"
proof -
  let ?reqs = "[(''a'', ''x'', noOptions), (''b'', ''y'', noOptions), (''c'', ''z'', noOptions)]"
  let ?s = "fresh :: (string, string, nat) sched"
  have h1: "initialize (\<lambda>n. Inr 0) (\<lambda>n. Inr ()) (constructor ''ordered-queue-with-retry'')
              = (Inr (), ?s)"
    by (simp add: fresh_def initialize_def)
  have "\<exists>js s'. addJobs (boundedAdd 5) ?s ?reqs = (Inr js, s')"
    by (simp add: addJob_def Let_def boundedAdd_def)
  then obtain js s' where h2: "addJobs (boundedAdd 5) ?s ?reqs = (Inr js, s')"
    by blast
  from addJobs_orders_from_zero [OF h1 h2] h2 show ?thesis
    by (simp add: upt_rec [of 0] upt_rec [of 1] upt_rec [of 2] del: addJobs.simps)
qed

section \<open>Operations before initialization\<close>

text \<open>
  Claim C6, as stated, fails for the two configuration setters: on a scheduler that was
  never initialized \<^verbatim>\<open>setRetryConfig\<close> and \<^verbatim>\<open>registerProcessor\<close> return normally and take
  effect.
\<close>

theorem configuration_before_initialize_succeeds:
  "\<not> isInitialized (constructor ''q'' :: (string, string, nat) sched)
   \<and> maxRetries (setRetryConfig (constructor ''q'' :: (string, string, nat) sched) 5 30000) = 5
   \<and> retryDelay (setRetryConfig (constructor ''q'' :: (string, string, nat) sched) 5 30000) = 30000
   \<and> processors (registerProcessor (constructor ''q'' :: (string, string, nat) sched)
        ''ordered-task'' failing) ''ordered-task'' = Some failing"
  by (simp add: constructor_def setRetryConfig_def registerProcessor_def)

text \<open>
  Claim C6, amended. Before \<^verbatim>\<open>initialize\<close> has completed, \<^verbatim>\<open>addJob\<close>, \<^verbatim>\<open>start\<close>,
  \<^verbatim>\<open>pause\<close>, \<^verbatim>\<open>resume\<close>, \<^verbatim>\<open>getOrderedJobCounts\<close>, \<^verbatim>\<open>getJob\<close> and \<^verbatim>\<open>getJobs\<close> fail with
  the not-initialized error and leave the scheduler as it was; \<^verbatim>\<open>registerProcessor\<close> and
  \<^verbatim>\<open>setRetryConfig\<close> carry no such check and update the registry and the configuration.
\<close>

theorem uninitialized_operations:
  assumes "\<not> isInitialized s"
  shows "addJob add s n d opts = (Inl NotInitializedError, s)
       \<and> start s = (Inl NotInitializedError, s)
       \<and> pause bpause s = (Inl NotInitializedError, s)
       \<and> resume bresume s = (Inl NotInitializedError, s)
       \<and> getOrderedJobCounts bgetJobCounts bgetJobs s = Inl NotInitializedError
       \<and> getJob bgetJob s jobId = Inl NotInitializedError
       \<and> getJobs bgetJobs s status start' end' = Inl NotInitializedError
       \<and> processors (registerProcessor s n p) n = Some p
       \<and> \<not> isInitialized (registerProcessor s n p)
       \<and> maxRetries (setRetryConfig s m r) = m
       \<and> retryDelay (setRetryConfig s m r) = r
       \<and> \<not> isInitialized (setRetryConfig s m r)"
  using assms
  by (simp add: addJob_def start_def pause_def resume_def getOrderedJobCounts_def getJob_def
        getJobs_def registerProcessor_def setRetryConfig_def)

theorem uninitialized_operations_witness:
  "\<not> isInitialized (constructor ''q'' :: (string, string, nat) sched)
   \<and> fst (addJob (boundedAdd 5) (constructor ''q'' :: (string, string, nat) sched)
            ''a'' ''x'' noOptions) = Inl NotInitializedError
   \<and> fst (start (constructor ''q'' :: (string, string, nat) sched)) = Inl NotInitializedError
   \<and> getOrderedJobCounts (\<lambda>q. Inr sampleCounts) sampleListing
       (constructor ''q'' :: (string, string, nat) sched) = Inl NotInitializedError"
proof -
  let ?s = "constructor ''q'' :: (string, string, nat) sched"
  have h: "\<not> isInitialized ?s" by (simp add: constructor_def)
  from uninitialized_operations
         [where s = ?s and add = "boundedAdd 5" and n = "''a''" and d = "''x''"
            and opts = noOptions and bgetJobCounts = "\<lambda>q. Inr sampleCounts"
            and bgetJobs = sampleListing, OF h] h
  show ?thesis by simp
qed

section \<open>Stats projector\<close>

lemma js_insert_byOrder: "js_insert byOrder x ys = insort_key e_order x ys"
  by (induction ys) (simp_all add: byOrder_def)

lemma js_sort_byOrder: "js_sort byOrder xs = sort_key e_order xs"
  by (induction xs) (simp_all add: js_sort_def js_insert_byOrder)

lemma sorted_js_sort: "sorted (map e_order (js_sort byOrder xs))"
  by (simp add: js_sort_byOrder)

lemma mset_js_sort: "mset (js_sort byOrder xs) = mset xs"
  by (simp add: js_sort_byOrder)

text \<open>
  Claim C7. In every result of \<^verbatim>\<open>getOrderedJobCounts\<close> the waiting list and the delayed
  list are sorted ascending by \<open>order\<close>, whatever the order in which the backend listed
  the jobs; each list holds exactly the entries of the jobs the backend listed.
\<close>

theorem getOrderedJobCounts_sorted:
  assumes "getOrderedJobCounts bgetJobCounts bgetJobs s = Inr res"
  shows "sorted (map e_order (orderedWaiting res)) \<and> sorted (map e_order (orderedDelayed res))
       \<and> (\<exists>q waitingJobs delayedJobs.
             queue s = Some q
             \<and> bgetJobs q Waiting 0 (- 1) = Inr waitingJobs
             \<and> bgetJobs q Delayed 0 (- 1) = Inr delayedJobs
             \<and> mset (orderedWaiting res) = mset (map waitingEntry waitingJobs)
             \<and> mset (orderedDelayed res) = mset (map delayedEntry delayedJobs))"
  using assms
  by (auto simp: getOrderedJobCounts_def sorted_js_sort mset_js_sort
           split: if_splits option.splits sum.splits)

theorem getOrderedJobCounts_sorted_witness:
  "\<exists>res. getOrderedJobCounts (\<lambda>q. Inr sampleCounts) sampleListing fresh = Inr res
       \<and> sorted (map e_order (orderedWaiting res))
       \<and> sorted (map e_order (orderedDelayed res))
       \<and> map e_id (orderedWaiting res) = [''1'', ''2'', ''3'']
       \<and> map e_order (orderedDelayed res) = [3, 4]"
proof -
  let ?s = "fresh :: (string, string, nat) sched"
  have "\<exists>res. getOrderedJobCounts (\<lambda>q. Inr sampleCounts) sampleListing ?s = Inr res"
    by (simp add: getOrderedJobCounts_def sampleListing_def)
  then obtain res where h: "getOrderedJobCounts (\<lambda>q. Inr sampleCounts) sampleListing ?s = Inr res"
    by blast
  have v: "map e_id (orderedWaiting res) = [''1'', ''2'', ''3'']
         \<and> map e_order (orderedDelayed res) = [3, 4]"
    using h
    by (auto simp: getOrderedJobCounts_def sampleListing_def js_sort_def byOrder_def
          waitingEntry_def delayedEntry_def envelope_def jsor_def)
  from getOrderedJobCounts_sorted [OF h] h v show ?thesis
    by simp
qed

section \<open>Cleanup\<close>

lemma fold_delete:
  "fold (\<lambda>j m. m(job_id j := None)) js m = (\<lambda>k. if k \<in> set (map job_id js) then None else m k)"
  by (induction js arbitrary: m) (auto simp: fun_eq_iff)

lemma cleanupOrderedJobs_listed:
  "queue s = Some q \<Longrightarrow> bgetJobs q Completed 0 (- 1) = Inr completedJobs
     \<Longrightarrow> bgetJobs q Failed 0 (- 1) = Inr failedJobs
     \<Longrightarrow> cleanupOrderedJobs bgetJobs s =
           s\<lparr>processingOrder :=
               (\<lambda>k. if k \<in> set (map job_id (completedJobs @ failedJobs)) then None
                    else processingOrder s k)\<rparr>"
  by (simp add: cleanupOrderedJobs_def fold_delete del: fold_append)

lemma cleanupOrderedJobs_unlisted:
  "queue s = None \<or> (\<exists>q e. queue s = Some q \<and>
       (bgetJobs q Completed 0 (- 1) = Inl e \<or> bgetJobs q Failed 0 (- 1) = Inl e))
     \<Longrightarrow> cleanupOrderedJobs bgetJobs s = s"
  by (auto simp: cleanupOrderedJobs_def split: option.splits sum.splits)

lemma cleanupOrderedJobs_queue: "queue (cleanupOrderedJobs bgetJobs s) = queue s"
  by (simp add: cleanupOrderedJobs_def split: option.splits sum.splits)

lemma cleanupOrderedJobs_idempotent:
  "cleanupOrderedJobs bgetJobs (cleanupOrderedJobs bgetJobs s) = cleanupOrderedJobs bgetJobs s"
proof (cases "queue s")
  case None
  then show ?thesis by (simp add: cleanupOrderedJobs_def)
next
  case (Some q)
  show ?thesis
  proof (cases "bgetJobs q Completed 0 (- 1)")
    case (Inl e)
    with Some show ?thesis by (simp add: cleanupOrderedJobs_def)
  next
    case completed: (Inr completedJobs)
    show ?thesis
    proof (cases "bgetJobs q Failed 0 (- 1)")
      case (Inl e)
      with Some completed show ?thesis by (simp add: cleanupOrderedJobs_def)
    next
      case failed: (Inr failedJobs)
      let ?s' = "cleanupOrderedJobs bgetJobs s"
      have a: "?s' = s\<lparr>processingOrder :=
                 (\<lambda>k. if k \<in> set (map job_id (completedJobs @ failedJobs)) then None
                      else processingOrder s k)\<rparr>"
        using Some completed failed by (rule cleanupOrderedJobs_listed)
      have "queue ?s' = Some q"
        using Some by (simp add: cleanupOrderedJobs_queue)
      then have "cleanupOrderedJobs bgetJobs ?s' =
                   ?s'\<lparr>processingOrder :=
                       (\<lambda>k. if k \<in> set (map job_id (completedJobs @ failedJobs)) then None
                            else processingOrder ?s' k)\<rparr>"
        using completed failed by (rule cleanupOrderedJobs_listed)
      also have "\<dots> = ?s'"
        by (subst (1 2 3) a) (simp add: fun_eq_iff)
      finally show ?thesis .
    qed
  qed
qed

text \<open>
  Claim C8, as stated, fails for a lineage that is being retried. Attempt \<open>1\<close> of the
  lineage with order \<open>0\<close> has failed and its retry is delayed, so the lineage is neither
  completed nor failed; the index holds one entry per attempt, and cleanup deletes the
  entry of attempt \<open>1\<close> while keeping the entry of the retry.
\<close>

theorem cleanup_removes_entry_of_live_lineage:
  "fst (addJob (boundedAdd 9) fresh ''ordered-task'' ''payload'' noOptions)
     = Inr (envelope ''1'' 0 0 3)
   \<and> snd (handleJobFailure (boundedAdd 9) 2000
            (snd (addJob (boundedAdd 9) fresh ''ordered-task'' ''payload'' noOptions))
            (envelope ''1'' 0 0 3)) = Some firstRetry
   \<and> pendingRetryListing 2 Delayed 0 (- 1) = Inr [firstRetry]
   \<and> pendingRetryListing 2 Failed 0 (- 1) = Inr [envelope ''1'' 0 0 3]
   \<and> d_order (job_data firstRetry) = d_order (job_data (envelope ''1'' 0 0 3))
   \<and> queue afterFirstFailure = Some 2
   \<and> processingOrder afterFirstFailure ''1'' = Some (Some 0)
   \<and> processingOrder afterFirstFailure ''retry_1_2000'' = Some (Some 0)
   \<and> processingOrder (cleanupOrderedJobs pendingRetryListing afterFirstFailure) ''1'' = None
   \<and> processingOrder (cleanupOrderedJobs pendingRetryListing afterFirstFailure) ''retry_1_2000''
       = Some (Some 0)"
  by (simp add: run_defs digits_of_2000 firstRetry_def afterFirstFailure_def
        pendingRetryListing_def cleanupOrderedJobs_def)

text \<open>
  Claim C8, amended. The order index is keyed by attempt id. When the backend answers
  both listings, \<^verbatim>\<open>cleanupOrderedJobs\<close> removes from the order index exactly the entries
  keyed by the ids of the attempts the backend lists as completed or failed (also the
  failed attempt of a lineage whose retry is pending), and changes nothing else in the
  scheduler; a second call changes nothing more; the backend state is the one before the
  call.
\<close>

theorem cleanupOrderedJobs_exact:
  assumes "queue s = Some q"
    and "bgetJobs q Completed 0 (- 1) = Inr completedJobs"
    and "bgetJobs q Failed 0 (- 1) = Inr failedJobs"
  shows "cleanupOrderedJobs bgetJobs s =
           s\<lparr>processingOrder :=
               (\<lambda>k. if k \<in> set (map job_id (completedJobs @ failedJobs)) then None
                    else processingOrder s k)\<rparr>
       \<and> cleanupOrderedJobs bgetJobs (cleanupOrderedJobs bgetJobs s) = cleanupOrderedJobs bgetJobs s
       \<and> queue (cleanupOrderedJobs bgetJobs s) = queue s"
proof (intro conjI)
  show "cleanupOrderedJobs bgetJobs s =
          s\<lparr>processingOrder :=
              (\<lambda>k. if k \<in> set (map job_id (completedJobs @ failedJobs)) then None
                   else processingOrder s k)\<rparr>"
    using assms by (rule cleanupOrderedJobs_listed)
  show "cleanupOrderedJobs bgetJobs (cleanupOrderedJobs bgetJobs s)
          = cleanupOrderedJobs bgetJobs s"
    by (rule cleanupOrderedJobs_idempotent)
  show "queue (cleanupOrderedJobs bgetJobs s) = queue s"
    by (rule cleanupOrderedJobs_queue)
qed

theorem cleanupOrderedJobs_exact_witness:
  "dom (processingOrder (cleanupOrderedJobs sampleListing (fresh\<lparr>processingOrder := sampleIndex\<rparr>)))
     = {''1''}
   \<and> cleanupOrderedJobs sampleListing
       (cleanupOrderedJobs sampleListing (fresh\<lparr>processingOrder := sampleIndex\<rparr>))
     = cleanupOrderedJobs sampleListing (fresh\<lparr>processingOrder := sampleIndex\<rparr>)
   \<and> queue (cleanupOrderedJobs sampleListing (fresh\<lparr>processingOrder := sampleIndex\<rparr>)) = Some 0"
proof -
  let ?s = "fresh\<lparr>processingOrder := sampleIndex\<rparr> :: (string, string, nat) sched"
  have h1: "queue ?s = Some 0" by simp
  have h2: "sampleListing 0 Completed 0 (- 1) = Inr [envelope ''6'' 5 0 3]"
    by (simp add: sampleListing_def)
  have h3: "sampleListing 0 Failed 0 (- 1) = Inr [envelope ''7'' 6 3 3]"
    by (simp add: sampleListing_def)
  from cleanupOrderedJobs_exact
         [where s = ?s and q = 0 and bgetJobs = sampleListing, OF h1 h2 h3]
  show ?thesis
    by (auto simp: sampleIndex_def envelope_def dom_def split: if_splits)
qed

end
